theory Spec2Isabelle
  imports Complex_Main "HOL-Library.AList"
begin

section \<open>Numbers and time\<close>

subsection \<open>float64\<close>

text \<open>
  Go's \<^verbatim>\<open>float64\<close> is IEEE-754 binary64. A finite value is the real number it denotes; the
  two infinities and NaN are separate values. An arithmetic operation returns the exact
  real result rounded to the nearest binary64 number, a tie to the even significand, with
  gradual underflow and with overflow to an infinity. The sign of a zero is not kept: the
  divisors of this program (a number of cores, a number of seconds, 10000) are never a
  negative zero, and the two zeros compare equal.
\<close>

datatype float64 = Fin real | PInf | NInf | NaN

text \<open>The nearest integer, a tie to the even one.\<close>

definition round_half_even :: "real \<Rightarrow> int" where
  "round_half_even m =
     (let f = \<lfloor>m\<rfloor> in
      if m - of_int f < 1 / 2 then f
      else if 1 / 2 < m - of_int f then f + 1
      else if even f then f else f + 1)"

text \<open>
  A positive real \<open>a\<close> is brought to the form \<open>m * 2 ^ e\<close> with \<open>2 ^ 52 \<le> m < 2 ^ 53\<close>,
  the 53 bits of a significand, by halving or doubling. The exponent stays within the
  range of binary64: it stops at \<open>-1074\<close> (the subnormal numbers) and at \<open>971\<close>.
\<close>

function scale_down :: "real \<Rightarrow> int \<Rightarrow> real \<times> int" where
  "scale_down m e = (if 2 ^ 53 \<le> m \<and> e < 971 then scale_down (m / 2) (e + 1) else (m, e))"
  by pat_completeness auto
termination
  by (relation "measure (\<lambda>(m, e). nat (971 - e))") auto

function scale_up :: "real \<Rightarrow> int \<Rightarrow> real \<times> int" where
  "scale_up m e = (if m < 2 ^ 52 \<and> - 1074 < e then scale_up (m * 2) (e - 1) else (m, e))"
  by pat_completeness auto
termination
  by (relation "measure (\<lambda>(m, e). nat (e + 1074))") auto

declare scale_down.simps [simp del] scale_up.simps [simp del]

text \<open>Rounding a real number to binary64.\<close>

definition round64 :: "real \<Rightarrow> float64" where
  "round64 x =
     (if x = 0 then Fin 0
      else
        (case scale_down \<bar>x\<bar> 0 of (m0, e0) \<Rightarrow>
         case scale_up m0 e0 of (m, e) \<Rightarrow>
           (let r = of_int (round_half_even m) * 2 powi e in
            if 2 ^ 1024 \<le> r then (if 0 < x then PInf else NInf)
            else Fin (sgn x * r))))"

fun fsign :: "float64 \<Rightarrow> real" where
  "fsign (Fin a) = sgn a"
| "fsign PInf = 1"
| "fsign NInf = - 1"
| "fsign NaN = 0"

definition inf_of_sign :: "real \<Rightarrow> float64" where
  "inf_of_sign s = (if 0 < s then PInf else if s < 0 then NInf else NaN)"

fun fneg :: "float64 \<Rightarrow> float64" where
  "fneg (Fin a) = Fin (- a)"
| "fneg PInf = NInf"
| "fneg NInf = PInf"
| "fneg NaN = NaN"

fun fadd :: "float64 \<Rightarrow> float64 \<Rightarrow> float64" where
  "fadd (Fin a) (Fin b) = round64 (a + b)"
| "fadd NaN _ = NaN"
| "fadd _ NaN = NaN"
| "fadd PInf NInf = NaN"
| "fadd NInf PInf = NaN"
| "fadd PInf _ = PInf"
| "fadd _ PInf = PInf"
| "fadd NInf _ = NInf"
| "fadd _ NInf = NInf"

definition fsub :: "float64 \<Rightarrow> float64 \<Rightarrow> float64" where
  "fsub a b = fadd a (fneg b)"

fun fmul :: "float64 \<Rightarrow> float64 \<Rightarrow> float64" where
  "fmul (Fin a) (Fin b) = round64 (a * b)"
| "fmul NaN _ = NaN"
| "fmul _ NaN = NaN"
| "fmul a b = inf_of_sign (fsign a * fsign b)"

fun fdiv :: "float64 \<Rightarrow> float64 \<Rightarrow> float64" where
  "fdiv (Fin a) (Fin b) = (if b = 0 then inf_of_sign (sgn a) else round64 (a / b))"
| "fdiv NaN _ = NaN"
| "fdiv _ NaN = NaN"
| "fdiv (Fin a) _ = Fin 0"
| "fdiv a (Fin b) = inf_of_sign (fsign a * (if 0 \<le> b then 1 else - 1))"
| "fdiv _ _ = NaN"

subsection \<open>int64 and the conversions\<close>

definition minInt64 :: int where
  "minInt64 = - (2 ^ 63)"

definition maxInt64 :: int where
  "maxInt64 = 2 ^ 63 - 1"

text \<open>Two's-complement wrap-around of an int64 result.\<close>

definition wrap64 :: "int \<Rightarrow> int" where
  "wrap64 x = (x + 2 ^ 63) mod 2 ^ 64 - 2 ^ 63"

text \<open>Go's integer division truncates towards zero.\<close>

definition tdiv :: "int \<Rightarrow> int \<Rightarrow> int" where
  "tdiv a b = sgn a * sgn b * (\<bar>a\<bar> div \<bar>b\<bar>)"

text \<open>The remainder of that division has the sign of the dividend.\<close>

definition trem :: "int \<Rightarrow> int \<Rightarrow> int" where
  "trem a b = a - b * tdiv a b"

definition trunc :: "real \<Rightarrow> int" where
  "trunc x = (if 0 \<le> x then \<lfloor>x\<rfloor> else \<lceil>x\<rceil>)"

text \<open>
  \<^verbatim>\<open>int64(f)\<close> discards the fraction. Where the value does not fit, Go leaves the result
  to the implementation; the model takes the smallest int64, which is what amd64 gives.
\<close>

fun float64_to_int64 :: "float64 \<Rightarrow> int" where
  "float64_to_int64 (Fin x) =
     (if minInt64 \<le> trunc x \<and> trunc x \<le> maxInt64 then trunc x else minInt64)"
| "float64_to_int64 _ = minInt64"

text \<open>\<^verbatim>\<open>float64(i)\<close> rounds an integer beyond 53 bits.\<close>

definition int64_to_float64 :: "int \<Rightarrow> float64" where
  "int64_to_float64 i = round64 (real_of_int i)"

subsection \<open>time.Time and time.Duration\<close>

text \<open>
  An instant is its number of nanoseconds on the wall clock; a \<^verbatim>\<open>time.Duration\<close> is an
  int64 count of nanoseconds. \<^verbatim>\<open>Time.Sub\<close> saturates at the two ends of int64.
\<close>

type_synonym time = int
type_synonym duration = int

definition Second :: duration where
  "Second = 1000000000"

definition Minute :: duration where
  "Minute = 60 * Second"

definition measureInterval :: duration where
  "measureInterval = Second * 5"

definition time_Sub :: "time \<Rightarrow> time \<Rightarrow> duration" where
  "time_Sub t u = max minInt64 (min maxInt64 (t - u))"

text \<open>
  \<^verbatim>\<open>Duration.Seconds\<close>: the whole seconds plus the remaining nanoseconds over \<open>1e9\<close>, in
  \<^verbatim>\<open>float64\<close>.
\<close>

definition Seconds :: "duration \<Rightarrow> float64" where
  "Seconds d =
     fadd (int64_to_float64 (tdiv d Second))
       (fdiv (int64_to_float64 (trem d Second)) (Fin 1000000000))"

definition minutes :: "int \<Rightarrow> duration" where
  "minutes mins = wrap64 (Minute * wrap64 mins)"

section \<open>The time series\<close>

text \<open>
  A \<^verbatim>\<open>ValuesMap\<close> is an association list with distinct keys. A \<^verbatim>\<open>range\<close> loop over the
  Go map visits the entries in an order the language leaves open; the order of the list
  stands for the order of that run. A key that is absent reads as \<open>0\<close>.
\<close>

type_synonym ValuesMap = "(string \<times> float64) list"

definition lookup0 :: "ValuesMap \<Rightarrow> string \<Rightarrow> float64" where
  "lookup0 m k = (case map_of m k of None \<Rightarrow> Fin 0 | Some v \<Rightarrow> v)"

record TimeValue =
  Time :: time
  Values :: ValuesMap

text \<open>\<open>mu\<close> is the state of the mutex: \<open>True\<close> while it is held.\<close>

record TimeSeriesAverage =
  TimeSeries :: "TimeValue list"
  mu :: bool
  DurationInMinutes :: "int list"

text \<open>
  What stops a call short of returning: \<^verbatim>\<open>Lock\<close> on a mutex that nobody will release,
  and an index outside a slice (the index and the length).
\<close>

datatype fault = Deadlock | IndexOutOfRange int nat

definition SetDurationsMinutes :: "int list \<Rightarrow> TimeSeriesAverage \<Rightarrow> TimeSeriesAverage" where
  "SetDurationsMinutes durations tsa = tsa\<lparr>DurationInMinutes := sort durations\<rparr>"

definition last_index :: "int list \<Rightarrow> fault + int" where
  "last_index ds =
     (if ds = [] then Inl (IndexOutOfRange (- 1) 0) else Inr (ds ! (length ds - 1)))"

text \<open>
  The loop of \<^verbatim>\<open>Add\<close>. \<open>now\<close> is the reading of the clock that \<^verbatim>\<open>time.Since\<close> takes; it is
  one reading for the whole call.
\<close>

fun prune :: "time \<Rightarrow> int list \<Rightarrow> TimeValue list \<Rightarrow> fault + TimeValue list" where
  "prune now ds [] = Inr []"
| "prune now ds (x # xs) =
     (case last_index ds of
        Inl e \<Rightarrow> Inl e
      | Inr d \<Rightarrow>
          if time_Sub now (Time x) > minutes d then prune now ds xs else Inr (x # xs))"

definition Add :: "time \<Rightarrow> time \<Rightarrow> ValuesMap \<Rightarrow> TimeSeriesAverage \<Rightarrow> fault + TimeSeriesAverage" where
  "Add now t valuesMap tsa =
     (case prune now (DurationInMinutes tsa) (TimeSeries tsa) of
        Inl e \<Rightarrow> Inl e
      | Inr ts \<Rightarrow> Inr (tsa\<lparr>TimeSeries := ts @ [\<lparr>Time = t, Values = valuesMap\<rparr>]\<rparr>))"

text \<open>The index of the reference sample of the window \<open>d\<close> in a series of \<open>n\<close> samples.\<close>

definition keyInt :: "nat \<Rightarrow> int \<Rightarrow> int" where
  "keyInt n d = int n - tdiv (wrap64 (wrap64 d * Minute)) measureInterval"

text \<open>The rate of one key, to four decimal places.\<close>

definition rate :: "float64 \<Rightarrow> float64 \<Rightarrow> duration \<Rightarrow> float64" where
  "rate lastVal refVal elapsed =
     fdiv (int64_to_float64 (float64_to_int64
       (fadd (fmul (fdiv (fsub lastVal refVal) (Seconds elapsed)) (Fin 10000)) (Fin (1 / 2)))))
       (Fin 10000)"

text \<open>The inner loop of \<^verbatim>\<open>Percentage\<close>, over the entries of the latest sample.\<close>

fun percentage_keys ::
  "TimeValue list \<Rightarrow> int \<Rightarrow> TimeValue \<Rightarrow> (string \<times> float64) list \<Rightarrow> ValuesMap \<Rightarrow> fault + ValuesMap"
where
  "percentage_keys ts ki lst [] acc = Inr acc"
| "percentage_keys ts ki lst ((key, lastVal) # rest) acc =
     (if ki < 0 then percentage_keys ts ki lst rest (AList.update key (Fin (- 1)) acc)
      else if int (length ts) \<le> ki then Inl (IndexOutOfRange ki (length ts))
      else percentage_keys ts ki lst rest
             (AList.update key
                (rate lastVal (lookup0 (Values (ts ! nat ki)) key)
                   (time_Sub (Time lst) (Time (ts ! nat ki))))
                acc))"

text \<open>The outer loop, over the configured windows.\<close>

fun percentage_windows ::
  "TimeValue list \<Rightarrow> TimeValue \<Rightarrow> int list \<Rightarrow> (int \<times> ValuesMap) list \<Rightarrow> fault + (int \<times> ValuesMap) list"
where
  "percentage_windows ts lst [] acc = Inr acc"
| "percentage_windows ts lst (d # ds) acc =
     (case percentage_keys ts (keyInt (length ts) d) lst (Values lst) [] of
        Inl e \<Rightarrow> Inl e
      | Inr m \<Rightarrow> percentage_windows ts lst ds (AList.update d m acc))"

text \<open>
  \<^verbatim>\<open>Percentage\<close> returns the map (\<open>None\<close> for Go's nil) and the error. It takes the mutex
  and releases it on return, so the state it leaves is the state it found.
\<close>

definition Percentage :: "TimeSeriesAverage \<Rightarrow> fault + ((int \<times> ValuesMap) list option \<times> string option)" where
  "Percentage tsa =
     (if mu tsa then Inl Deadlock
      else if length (TimeSeries tsa) = 0
        then Inr (None, Some ''CPU metrics are not collected yet'')
      else
        (case percentage_windows (TimeSeries tsa)
                (TimeSeries tsa ! (length (TimeSeries tsa) - 1)) (DurationInMinutes tsa) [] of
           Inl e \<Rightarrow> Inl e
         | Inr res \<Rightarrow> Inr (Some res, None)))"

section \<open>The watcher\<close>

record CPUWatcher =
  LoadAvg1 :: bool
  LoadAvg5 :: bool
  LoadAvg15 :: bool
  UtilAvg :: TimeSeriesAverage
  UtilTypes :: "string list"

text \<open>The fields of gopsutil's \<^verbatim>\<open>cpu.TimesStat\<close> that the watcher reads, one record per core.\<close>

record TimesStat =
  User :: float64
  System :: float64
  Idle :: float64
  Nice :: float64
  Iowait :: float64
  Irq :: float64
  Softirq :: float64
  Steal :: float64

text \<open>gopsutil's \<^verbatim>\<open>load.AvgStat\<close>.\<close>

record AvgStat =
  Load1 :: float64
  Load5 :: float64
  Load15 :: float64

subsection \<open>Strings\<close>

text \<open>\<^verbatim>\<open>strings.ToLower\<close> on ASCII; bytes outside \<open>A\<close>..\<open>Z\<close> are kept.\<close>

definition to_lower_char :: "char \<Rightarrow> char" where
  "to_lower_char c =
     (let n = (of_char c :: nat) in if 65 \<le> n \<and> n \<le> 90 then char_of (n + 32) else c)"

definition ToLower :: "string \<Rightarrow> string" where
  "ToLower s = map to_lower_char s"

text \<open>The decimal digits of a core index, as \<^verbatim>\<open>%d\<close> prints it.\<close>

definition digit_char :: "nat \<Rightarrow> char" where
  "digit_char n = ''0123456789'' ! n"

fun itoa :: "nat \<Rightarrow> string" where
  "itoa n = (if n < 10 then [digit_char n] else itoa (n div 10) @ [digit_char (n mod 10)])"

text \<open>
  \<^verbatim>\<open>fmt.Sprintf("%s.%%d.cpu%d", utype, i)\<close> and \<^verbatim>\<open>fmt.Sprintf("%s.%%d.total", utype)\<close>:
  the \<^verbatim>\<open>%%\<close> leaves a \<^verbatim>\<open>%d\<close> in the key, for \<^verbatim>\<open>Results\<close> to fill with the window.
\<close>

definition key_cpu :: "string \<Rightarrow> nat \<Rightarrow> string" where
  "key_cpu utype i = utype @ ''.%d.cpu'' @ itoa i"

definition key_total :: "string \<Rightarrow> string" where
  "key_total utype = utype @ ''.%d.total''"

text \<open>\<^verbatim>\<open>strings.Join\<close>.\<close>

fun Join :: "string list \<Rightarrow> string \<Rightarrow> string" where
  "Join [] sep = []"
| "Join [x] sep = x"
| "Join (x # y # zs) sep = x @ sep @ Join (y # zs) sep"

subsection \<open>Once and Run\<close>

text \<open>The \<^verbatim>\<open>switch\<close> of \<^verbatim>\<open>Once\<close>; \<open>None\<close> is its \<^verbatim>\<open>default: continue\<close>.\<close>

definition cpu_field :: "string \<Rightarrow> TimesStat \<Rightarrow> float64 option" where
  "cpu_field utype cputime =
     (if utype = ''system'' then Some (System cputime)
      else if utype = ''user'' then Some (User cputime)
      else if utype = ''nice'' then Some (Nice cputime)
      else if utype = ''idle'' then Some (Idle cputime)
      else if utype = ''iowait'' then Some (Iowait cputime)
      else if utype = ''irq'' then Some (Irq cputime)
      else if utype = ''softirq'' then Some (Softirq cputime)
      else if utype = ''steal'' then Some (Steal cputime)
      else None)"

fun once_types :: "nat \<Rightarrow> TimesStat \<Rightarrow> string list \<Rightarrow> ValuesMap \<Rightarrow> ValuesMap" where
  "once_types i cputime [] values = values"
| "once_types i cputime (utype # rest) values =
     (let utype = ToLower utype in
      case cpu_field utype cputime of
        None \<Rightarrow> once_types i cputime rest values
      | Some v \<Rightarrow>
          (let values1 = AList.update (key_cpu utype i) v values;
               values2 = AList.update (key_total utype)
                           (fadd (lookup0 values1 (key_total utype)) v) values1
           in once_types i cputime rest values2))"

fun once_cores :: "nat \<Rightarrow> TimesStat list \<Rightarrow> string list \<Rightarrow> ValuesMap \<Rightarrow> ValuesMap" where
  "once_cores i [] utypes values = values"
| "once_cores i (cputime # rest) utypes values =
     once_cores (Suc i) rest utypes (once_types i cputime utypes values)"

definition total_keys :: "string list" where
  "total_keys =
     [''system.%d.total'', ''user.%d.total'', ''nice.%d.total'', ''idle.%d.total'',
      ''iowait.%d.total'', ''interrupt.%d.total'', ''softirq.%d.total'', ''steal.%d.total'']"

fun once_totals :: "nat \<Rightarrow> string list \<Rightarrow> ValuesMap \<Rightarrow> ValuesMap" where
  "once_totals n [] values = values"
| "once_totals n (k # ks) values =
     once_totals n ks (AList.update k (fdiv (lookup0 values k) (int64_to_float64 (int n))) values)"

text \<open>The snapshot that \<^verbatim>\<open>Once\<close> builds from the per-core counters.\<close>

definition once_values :: "string list \<Rightarrow> TimesStat list \<Rightarrow> ValuesMap" where
  "once_values utypes cputimes =
     once_totals (length cputimes) total_keys (once_cores 0 cputimes utypes [])"

text \<open>
  \<^verbatim>\<open>Once\<close>. \<open>os\<close> is the answer of \<^verbatim>\<open>cpu.TimesWithContext\<close>: the error (also on a timeout) or
  the counters of each core. \<open>now\<close> is the clock, read once. The result is the error that
  \<^verbatim>\<open>Once\<close> returns and the watcher it leaves.
\<close>

definition Once :: "time \<Rightarrow> string + TimesStat list \<Rightarrow> CPUWatcher \<Rightarrow> fault + (string option \<times> CPUWatcher)" where
  "Once now os stat =
     (if mu (UtilAvg stat) then Inl Deadlock
      else
        (let stat1 = stat\<lparr>UtilAvg := (UtilAvg stat)\<lparr>mu := True\<rparr>\<rparr> in
         case os of
           Inl err \<Rightarrow> Inr (Some err, stat1)
         | Inr cputimes \<Rightarrow>
             (case Add now now (once_values (UtilTypes stat1) cputimes) (UtilAvg stat1) of
                Inl e \<Rightarrow> Inl e
              | Inr tsa \<Rightarrow> Inr (None, stat1\<lparr>UtilAvg := tsa\<lparr>mu := False\<rparr>\<rparr>))))"

text \<open>
  \<^verbatim>\<open>Run\<close> loops for ever; the model runs one iteration for each element of the list, which
  gives the clock and the answer of the operating system at that iteration. The error of
  \<^verbatim>\<open>Once\<close> is logged and dropped.
\<close>

fun Run :: "(time \<times> (string + TimesStat list)) list \<Rightarrow> CPUWatcher \<Rightarrow> fault + CPUWatcher" where
  "Run [] stat = Inr stat"
| "Run ((now, os) # rest) stat =
     (case Once now os stat of
        Inl e \<Rightarrow> Inl e
      | Inr (err, stat') \<Rightarrow> Run rest stat')"

subsection \<open>Results\<close>

text \<open>
  A \<^verbatim>\<open>MeasurementsMap\<close> maps a name to a number or to nil (\<open>None\<close>).
  \<open>Sprintf\<close> stands for \<^verbatim>\<open>fmt.Sprintf(k, d)\<close>, the key as format and the window as operand.
\<close>

type_synonym MeasurementsMap = "(string \<times> float64 option) list"

fun results_window ::
  "(string \<Rightarrow> int \<Rightarrow> string) \<Rightarrow> int \<Rightarrow> (string \<times> float64) list \<Rightarrow> MeasurementsMap \<Rightarrow> MeasurementsMap"
where
  "results_window Sprintf d [] results = results"
| "results_window Sprintf d ((k, v) # m) results =
     results_window Sprintf d m
       (AList.update (''util.'' @ Sprintf k d) (if v = Fin (- 1) then None else Some v) results)"

fun results_util ::
  "(string \<Rightarrow> int \<Rightarrow> string) \<Rightarrow> (int \<times> ValuesMap) list \<Rightarrow> MeasurementsMap \<Rightarrow> MeasurementsMap"
where
  "results_util Sprintf [] results = results"
| "results_util Sprintf ((d, m) # util) results =
     results_util Sprintf util (results_window Sprintf d m results)"

definition results_load :: "CPUWatcher \<Rightarrow> AvgStat \<Rightarrow> MeasurementsMap \<Rightarrow> MeasurementsMap" where
  "results_load cs loadAvg results =
     (let r1 = (if LoadAvg1 cs then AList.update ''load.avg.1'' (Some (Load1 loadAvg)) results
                else results);
          r5 = (if LoadAvg5 cs then AList.update ''load.avg.5'' (Some (Load5 loadAvg)) r1
                else r1)
      in if LoadAvg15 cs then AList.update ''load.avg.15'' (Some (Load15 loadAvg)) r5 else r5)"

text \<open>
  \<^verbatim>\<open>Results\<close>. \<open>load\<close> is the answer of \<^verbatim>\<open>load.Avg\<close>, asked only when a load average is
  enabled.
\<close>

definition Results ::
  "(string \<Rightarrow> int \<Rightarrow> string) \<Rightarrow> string + AvgStat \<Rightarrow> CPUWatcher \<Rightarrow> fault + (MeasurementsMap \<times> string option)"
where
  "Results Sprintf load cs =
     (case Percentage (UtilAvg cs) of
        Inl e \<Rightarrow> Inl e
      | Inr (util, err) \<Rightarrow>
          (let errs = (case err of None \<Rightarrow> [] | Some e \<Rightarrow> [e]);
               results = results_util Sprintf (case util of None \<Rightarrow> [] | Some u \<Rightarrow> u) [];
               (results, errs) =
                 (if LoadAvg1 cs \<or> LoadAvg5 cs \<or> LoadAvg15 cs then
                    (case load of
                       Inl e \<Rightarrow> (results, errs @ [e])
                     | Inr loadAvg \<Rightarrow> (results_load cs loadAvg results, errs))
                  else (results, errs))
           in if length errs = 0 then Inr (results, None)
              else Inr (results, Some (''CPU: '' @ Join errs ''; ''))))"

subsection \<open>The constructor\<close>

record Cagent =
  CPULoadDataGather :: "string list"
  CPUUtilDataGather :: "string list"
  CPUUtilTypes :: "string list"

definition utilisationMetricsByOS :: "string \<Rightarrow> string list" where
  "utilisationMetricsByOS os =
     (if os = ''windows'' then [''system'', ''user'', ''idle'', ''irq'']
      else if os = ''linux'' then
        [''system'', ''user'', ''nice'', ''iowait'', ''idle'', ''softirq'', ''irq'']
      else if os = ''freebsd'' then [''system'', ''user'', ''nice'', ''idle'', ''irq'']
      else if os = ''solaris'' then []
      else if os = ''openbsd'' then [''system'', ''user'', ''nice'', ''idle'', ''irq'']
      else if os = ''darwin'' then [''system'', ''user'', ''nice'', ''idle'']
      else [])"

definition HasPrefix :: "string \<Rightarrow> string \<Rightarrow> bool" where
  "HasPrefix s pre = (take (length pre) s = pre)"

text \<open>
  \<^verbatim>\<open>strconv.Atoi\<close>: an optional sign and decimal digits, within the range of \<^verbatim>\<open>int\<close>;
  \<open>None\<close> is its error.
\<close>

definition is_digit :: "char \<Rightarrow> bool" where
  "is_digit c = (let n = (of_char c :: nat) in 48 \<le> n \<and> n \<le> 57)"

definition digits_value :: "string \<Rightarrow> int" where
  "digits_value s = foldl (\<lambda>a c. 10 * a + (int (of_char c) - 48)) 0 s"

definition Atoi :: "string \<Rightarrow> int option" where
  "Atoi s =
     (let neg = (s \<noteq> [] \<and> hd s = CHR ''-'');
          body = (if s \<noteq> [] \<and> (hd s = CHR ''+'' \<or> hd s = CHR ''-'') then tl s else s)
      in if body = [] \<or> \<not> list_all is_digit body then None
         else (let v = (if neg then - digits_value body else digits_value body)
               in if minInt64 \<le> v \<and> v \<le> maxInt64 then Some v else None))"

text \<open>
  The \<^verbatim>\<open>switch\<close> on the load-average window. Where \<^verbatim>\<open>Atoi\<close> fails the code goes on with the
  value it returns beside the error, which is never 1, 5 or 15.
\<close>

fun load_modes :: "string list \<Rightarrow> CPUWatcher \<Rightarrow> CPUWatcher" where
  "load_modes [] stat = stat"
| "load_modes (d # ds) stat =
     load_modes ds
       (if HasPrefix d ''avg'' then
          (case Atoi (drop 3 d) of
             None \<Rightarrow> stat
           | Some v \<Rightarrow>
               if v = 1 then stat\<lparr>LoadAvg1 := True\<rparr>
               else if v = 5 then stat\<lparr>LoadAvg5 := True\<rparr>
               else if v = 15 then stat\<lparr>LoadAvg15 := True\<rparr>
               else stat)
        else stat)"

fun util_durations :: "string list \<Rightarrow> int list \<Rightarrow> int list" where
  "util_durations [] durations = durations"
| "util_durations (d # ds) durations =
     util_durations ds
       (if HasPrefix d ''avg'' then
          (case Atoi (drop 3 d) of None \<Rightarrow> durations | Some v \<Rightarrow> durations @ [v])
        else durations)"

fun util_types :: "string list \<Rightarrow> string list \<Rightarrow> string list \<Rightarrow> string list" where
  "util_types supported [] acc = acc"
| "util_types supported (t # ts) acc =
     util_types supported ts (if t \<in> set supported then acc @ [t] else acc)"

definition empty_watcher :: CPUWatcher where
  "empty_watcher =
     \<lparr>LoadAvg1 = False, LoadAvg5 = False, LoadAvg15 = False,
      UtilAvg = \<lparr>TimeSeries = [], mu = False, DurationInMinutes = []\<rparr>,
      UtilTypes = []\<rparr>"

text \<open>
  \<^verbatim>\<open>(ca *Cagent).CPUWatcher()\<close>. \<open>goos\<close> is \<^verbatim>\<open>runtime.GOOS\<close>; \<open>loadErr\<close> is the error of the
  probing call of \<^verbatim>\<open>load.Avg\<close>. The mutex is taken at the start and released at the end.
\<close>

definition Cagent_CPUWatcher :: "string \<Rightarrow> string option \<Rightarrow> Cagent \<Rightarrow> CPUWatcher" where
  "Cagent_CPUWatcher goos loadErr ca =
     (let stat = empty_watcher;
          stat = (if length (CPULoadDataGather ca) > 0 then
                    (if loadErr = Some ''not implemented yet'' then stat
                     else load_modes (CPULoadDataGather ca) stat)
                  else stat);
          durations = util_durations (CPUUtilDataGather ca) [];
          stat = stat\<lparr>UtilTypes := util_types (utilisationMetricsByOS goos) (CPUUtilTypes ca) []\<rparr>
      in stat\<lparr>UtilAvg := SetDurationsMinutes durations (UtilAvg stat)\<rparr>)"

section \<open>Definitions for the statements\<close>

text \<open>
  A window the data model allows: a positive number of minutes whose nanoseconds fit
  a \<^verbatim>\<open>time.Duration\<close>.
\<close>

definition valid_window :: "int \<Rightarrow> bool" where
  "valid_window d = (0 < d \<and> d * Minute \<le> maxInt64)"

text \<open>What \<^verbatim>\<open>Percentage\<close> stores for one key of one window.\<close>

definition window_value :: "TimeValue list \<Rightarrow> int \<Rightarrow> TimeValue \<Rightarrow> string \<Rightarrow> float64 \<Rightarrow> float64" where
  "window_value ts ki lst key lastVal =
     (if ki < 0 then Fin (- 1)
      else rate lastVal (lookup0 (Values (ts ! nat ki)) key)
             (time_Sub (Time lst) (Time (ts ! nat ki))))"

definition window_map :: "TimeValue list \<Rightarrow> TimeValue \<Rightarrow> int \<Rightarrow> ValuesMap" where
  "window_map ts lst d =
     fold (\<lambda>(k, v). AList.update k (window_value ts (keyInt (length ts) d) lst k v)) (Values lst) []"

definition store0 :: TimeSeriesAverage where
  "store0 = \<lparr>TimeSeries = [], mu = False, DurationInMinutes = [1]\<rparr>"

text \<open>Rounding to four decimal places, half up, as the specification words it.\<close>

definition round_half_up4 :: "real \<Rightarrow> real" where
  "round_half_up4 x = real_of_int \<lfloor>x * 10000 + 1 / 2\<rfloor> / 10000"

text \<open>Sample stores: twelve samples, the latest sixty seconds after the first.\<close>

definition snap :: "int \<Rightarrow> string \<Rightarrow> real \<Rightarrow> TimeValue" where
  "snap secs key v = \<lparr>Time = secs * Second, Values = [(key, Fin v)]\<rparr>"

definition store_rate :: TimeSeriesAverage where
  "store_rate =
     \<lparr>TimeSeries =
        [snap 0 ''user.%d.total'' 10, snap 5 ''user.%d.total'' 12, snap 10 ''user.%d.total'' 15,
         snap 15 ''user.%d.total'' 17, snap 20 ''user.%d.total'' 20, snap 25 ''user.%d.total'' 22,
         snap 30 ''user.%d.total'' 25, snap 35 ''user.%d.total'' 27, snap 40 ''user.%d.total'' 30,
         snap 45 ''user.%d.total'' 32, snap 50 ''user.%d.total'' 35, snap 60 ''user.%d.total'' 40],
      mu = False, DurationInMinutes = [1]\<rparr>"

definition store_falling :: TimeSeriesAverage where
  "store_falling =
     \<lparr>TimeSeries =
        [snap 0 ''idle.%d.total'' (96 / 10000), snap 5 ''idle.%d.total'' 0, snap 10 ''idle.%d.total'' 0,
         snap 15 ''idle.%d.total'' 0, snap 20 ''idle.%d.total'' 0, snap 25 ''idle.%d.total'' 0,
         snap 30 ''idle.%d.total'' 0, snap 35 ''idle.%d.total'' 0, snap 40 ''idle.%d.total'' 0,
         snap 45 ''idle.%d.total'' 0, snap 50 ''idle.%d.total'' 0, snap 60 ''idle.%d.total'' 0],
      mu = False, DurationInMinutes = [1]\<rparr>"


text \<open>The window as \<^verbatim>\<open>%d\<close> prints it, with its sign.\<close>

definition itoa_int :: "int \<Rightarrow> string" where
  "itoa_int d = (if d < 0 then CHR ''-'' # itoa (nat (- d)) else itoa (nat d))"

text \<open>
  \<^verbatim>\<open>fmt.Sprintf(k, d)\<close> for a key \<open>k\<close> that holds one \<^verbatim>\<open>%d\<close> and no other \<^verbatim>\<open>%\<close>, which is the
  form of every key that \<^verbatim>\<open>Once\<close> builds: the \<^verbatim>\<open>%d\<close> becomes the window.
\<close>

fun Sprintf_d :: "string \<Rightarrow> int \<Rightarrow> string" where
  "Sprintf_d (c # c' # rest) d =
     (if c = CHR ''%'' \<and> c' = CHR ''d'' then itoa_int d @ rest else c # Sprintf_d (c' # rest) d)"
| "Sprintf_d s d = s"

text \<open>\<^verbatim>\<open>Results\<close> asks for the load average when one of the three is enabled.\<close>

definition load_enabled :: "CPUWatcher \<Rightarrow> bool" where
  "load_enabled cs = (LoadAvg1 cs \<or> LoadAvg5 cs \<or> LoadAvg15 cs)"

text \<open>A watcher five seconds old: one sample, a window of one minute.\<close>

definition watcher_young :: CPUWatcher where
  "watcher_young =
     \<lparr>LoadAvg1 = True, LoadAvg5 = False, LoadAvg15 = False,
      UtilAvg = \<lparr>TimeSeries = [snap 0 ''user.%d.total'' 10], mu = False, DurationInMinutes = [1]\<rparr>,
      UtilTypes = [''user'']\<rparr>"

definition load_ok :: AvgStat where
  "load_ok = \<lparr>Load1 = Fin (3 / 2), Load5 = Fin 1, Load15 = Fin (1 / 2)\<rparr>"

text \<open>The watcher of \<open>store_rate\<close>, with the one-minute load average enabled.\<close>

definition watcher_rate :: CPUWatcher where
  "watcher_rate =
     \<lparr>LoadAvg1 = True, LoadAvg5 = False, LoadAvg15 = False,
      UtilAvg = store_rate, UtilTypes = [''user'']\<rparr>"

section \<open>Properties\<close>

subsection \<open>Rounding to binary64\<close>

lemma scale_up_props:
  assumes "scale_up m e = (m', e')"
  shows "e' \<le> e \<and> m' = m * 2 ^ nat (e - e') \<and> (m < 2 ^ 53 \<longrightarrow> m' < 2 ^ 53) \<and>
         (- 1074 \<le> e \<longrightarrow> - 1074 \<le> e' \<and> (2 ^ 52 \<le> m' \<or> e' = - 1074))"
  using assms
proof (induction m e rule: scale_up.induct)
  case (1 m e)
  show ?case
  proof (cases "m < 2 ^ 52 \<and> - 1074 < e")
    case True
    have "scale_up m e = scale_up (m * 2) (e - 1)"
      by (subst scale_up.simps) (simp only: True if_True simp_thms)
    with "1.prems" have r: "scale_up (m * 2) (e - 1) = (m', e')" by simp
    note ih = "1.IH" [OF True r]
    from ih have i1: "e' \<le> e - 1" by (rule conjunct1)
    from ih have i2: "m' = m * 2 * 2 ^ nat (e - 1 - e')" by blast
    from ih have i3: "m * 2 < 2 ^ 53 \<longrightarrow> m' < 2 ^ 53" by blast
    from ih have i4: "- 1074 \<le> e - 1 \<longrightarrow> - 1074 \<le> e' \<and> (2 ^ 52 \<le> m' \<or> e' = - 1074)" by blast
    from i1 have n: "nat (e - e') = Suc (nat (e - 1 - e'))" by simp
    have c1: "e' \<le> e" using i1 by simp
    have c2: "m' = m * 2 ^ nat (e - e')" using i2 by (simp only: n power_Suc mult.assoc)
    have "m * 2 < 2 ^ 53" using True by simp
    with i3 have c3: "m' < 2 ^ 53" by blast
    from True have "- 1074 \<le> e - 1" by simp
    with i4 have c4: "- 1074 \<le> e' \<and> (2 ^ 52 \<le> m' \<or> e' = - 1074)" by blast
    from c1 c2 c3 c4 show ?thesis by blast
  next
    case False
    have "scale_up m e = (m, e)"
      by (subst scale_up.simps) (simp only: False if_False)
    with "1.prems" have eq: "m' = m" "e' = e" by simp_all
    from False have "- 1074 \<le> e \<longrightarrow> 2 ^ 52 \<le> m \<or> e = - 1074" by auto
    with eq show ?thesis by simp
  qed
qed

lemma scale_down_props:
  assumes "scale_down m e = (m', e')"
  shows "e \<le> e' \<and> m = m' * 2 ^ nat (e' - e) \<and> (2 ^ 52 \<le> m \<longrightarrow> 2 ^ 52 \<le> m') \<and>
         (m < 2 ^ 53 \<longrightarrow> m' = m \<and> e' = e) \<and>
         (e \<le> 971 \<longrightarrow> e' \<le> 971 \<and> (m' < 2 ^ 53 \<or> e' = 971))"
  using assms
proof (induction m e rule: scale_down.induct)
  case (1 m e)
  show ?case
  proof (cases "2 ^ 53 \<le> m \<and> e < 971")
    case True
    have "scale_down m e = scale_down (m / 2) (e + 1)"
      by (subst scale_down.simps) (simp only: True if_True simp_thms)
    with "1.prems" have r: "scale_down (m / 2) (e + 1) = (m', e')" by simp
    note ih = "1.IH" [OF True r]
    from ih have i1: "e + 1 \<le> e'" by (rule conjunct1)
    from ih have i2: "m / 2 = m' * 2 ^ nat (e' - (e + 1))" by blast
    from ih have i3: "2 ^ 52 \<le> m / 2 \<longrightarrow> 2 ^ 52 \<le> m'" by blast
    from ih have i5: "e + 1 \<le> 971 \<longrightarrow> e' \<le> 971 \<and> (m' < 2 ^ 53 \<or> e' = 971)" by blast
    from i1 have n: "nat (e' - e) = Suc (nat (e' - (e + 1)))" by simp
    have c1: "e \<le> e'" using i1 by simp
    have "m = 2 * (m / 2)" by simp
    also have "\<dots> = m' * 2 ^ nat (e' - e)" by (simp only: i2 n power_Suc)
    finally have c2: "m = m' * 2 ^ nat (e' - e)" .
    have "(2::real) ^ 52 \<le> m / 2" using True by simp
    with i3 have c3: "2 ^ 52 \<le> m'" by blast
    have c4: "\<not> m < 2 ^ 53" using True by simp
    from True have "e + 1 \<le> 971" by simp
    with i5 have c5: "e' \<le> 971 \<and> (m' < 2 ^ 53 \<or> e' = 971)" by blast
    from c1 c2 c3 c4 c5 show ?thesis by blast
  next
    case False
    have "scale_down m e = (m, e)"
      by (subst scale_down.simps) (simp only: False if_False)
    with "1.prems" have eq: "m' = m" "e' = e" by simp_all
    from False have "e \<le> 971 \<longrightarrow> m < 2 ^ 53 \<or> e = 971" by auto
    with eq show ?thesis by simp
  qed
qed


lemma powi_nonpos: "e \<le> 0 \<Longrightarrow> (2::real) powi e = 1 / 2 ^ nat (- e)"
  by (cases "e = 0") (simp_all add: power_int_def power_one_over)

lemma powi_nonneg: "0 \<le> e \<Longrightarrow> (2::real) powi e = 2 ^ nat e"
  by (simp add: power_int_def)

lemma round64_unfold:
  assumes "x \<noteq> 0" and "scale_down \<bar>x\<bar> 0 = (m0, e0)" and "scale_up m0 e0 = (m, e)"
    and "r = of_int (round_half_even m) * 2 powi e"
  shows "round64 x = (if 2 ^ 1024 \<le> r then (if 0 < x then PInf else NInf) else Fin (sgn x * r))"
  unfolding round64_def Let_def assms(4) using assms(1-3) by simp

lemma round_half_even_of_int: "round_half_even (of_int n) = n"
  by (simp add: round_half_even_def)

lemma round64_of_int:
  assumes "\<bar>k\<bar> \<le> 2 ^ 53"
  shows "round64 (of_int k) = Fin (of_int k)"
proof (cases "k = 0")
  case True
  then show ?thesis by (simp add: round64_def)
next
  case False
  let ?a = "real_of_int \<bar>k\<bar>"
  have a: "0 < ?a" "?a \<le> 2 ^ 53" using False assms by simp_all
  obtain m0 e0 where sd: "scale_down ?a 0 = (m0, e0)" by (cases "scale_down ?a 0")
  obtain m e where su: "scale_up m0 e0 = (m, e)" by (cases "scale_up m0 e0")
  have me: "\<exists>n. m = of_int n \<and> real_of_int n * 2 powi e = ?a"
  proof (cases "?a < 2 ^ 53")
    case True
    with scale_down_props [OF sd] have "m0 = ?a" "e0 = 0" by blast+
    with scale_up_props [OF su] have e: "e \<le> 0" and m: "m = ?a * 2 ^ nat (- e)" by simp_all
    from m have m': "m = of_int (\<bar>k\<bar> * 2 ^ nat (- e))" by simp
    have "(2::real) powi e = 1 / 2 ^ nat (- e)"
      using e by (rule powi_nonpos)
    then have "real_of_int (\<bar>k\<bar> * 2 ^ nat (- e)) * 2 powi e = ?a"
      by simp
    with m' show ?thesis by blast
  next
    case False
    with a have eq: "?a = 2 ^ 53" by simp
    have "scale_down (2 ^ 53) 0 = scale_down (2 ^ 53 / 2) 1"
      by (subst scale_down.simps) simp
    also have "\<dots> = (2 ^ 52, 1)"
      by (subst scale_down.simps) simp
    finally have "m0 = 2 ^ 52" "e0 = 1" using sd eq by simp_all
    moreover have "scale_up (2 ^ 52) 1 = (2 ^ 52, 1)"
      by (subst scale_up.simps) simp
    ultimately have "m = 2 ^ 52" "e = 1" using su by simp_all
    then have "m = of_int (2 ^ 52)" "real_of_int (2 ^ 52) * 2 powi e = ?a"
      using eq by simp_all
    then show ?thesis by blast
  qed
  then obtain n where n: "m = of_int n" "real_of_int n * 2 powi e = ?a" by blast
  have r: "real_of_int (round_half_even m) * 2 powi e = ?a"
    using n by (simp add: round_half_even_of_int)
  have lt: "\<not> (2::real) ^ 1024 \<le> ?a"
    using a(2) by simp
  have sg: "sgn (real_of_int k) * ?a = of_int k"
    by (simp add: sgn_if)
  from False have nz: "real_of_int k \<noteq> 0" by simp
  have sd': "scale_down \<bar>real_of_int k\<bar> 0 = (m0, e0)" using sd by simp
  have "round64 (of_int k) = Fin (sgn (real_of_int k) * ?a)"
    using round64_unfold [OF nz sd' su r [symmetric]] lt by (simp only: if_False)
  with sg show ?thesis by (simp only:)
qed

lemmas round64_eval = round64_def scale_up.simps scale_down.simps round_half_even_def

subsection \<open>Arithmetic of the windows\<close>

lemma wrap64_id: "minInt64 \<le> x \<Longrightarrow> x \<le> maxInt64 \<Longrightarrow> wrap64 x = x"
  by (simp add: wrap64_def minInt64_def maxInt64_def)

lemma keyInt_valid_window:
  assumes "valid_window d"
  shows "keyInt n d = int n - 12 * d"
proof -
  from assms have d: "0 < d" "d * 60000000000 \<le> 9223372036854775807"
    by (simp_all add: valid_window_def Minute_def Second_def maxInt64_def)
  then have w1: "wrap64 d = d"
    by (intro wrap64_id) (simp_all add: minInt64_def maxInt64_def)
  from d have w2: "wrap64 (d * 60000000000) = d * 60000000000"
    by (intro wrap64_id) (simp_all add: minInt64_def maxInt64_def)
  have "(d * 60000000000) div 5000000000 = 12 * d" by simp
  with d show ?thesis
    by (simp add: keyInt_def w1 w2 Minute_def Second_def measureInterval_def tdiv_def)
qed

lemma valid_windows_in_range:
  "list_all valid_window ds \<Longrightarrow> list_all (\<lambda>d. keyInt n d < int n) ds"
  by (induction ds) (auto simp: keyInt_valid_window valid_window_def)

subsection \<open>The loops of Percentage in closed form\<close>

lemma percentage_keys_fold:
  "ki < int (length ts) \<Longrightarrow>
   percentage_keys ts ki lst es acc =
     Inr (fold (\<lambda>(k, v). AList.update k (window_value ts ki lst k v)) es acc)"
  by (induction es arbitrary: acc) (auto simp: window_value_def)

lemma map_of_fold_update:
  "map_of (fold (\<lambda>(k, v). AList.update k (f k v)) es acc) key =
     (case map_of (rev es) key of None \<Rightarrow> map_of acc key | Some v \<Rightarrow> Some (f key v))"
proof (induction es arbitrary: acc)
  case Nil
  then show ?case by simp
next
  case (Cons e es)
  obtain k v where e: "e = (k, v)" by (cases e)
  show ?case
    by (simp add: e Cons.IH update_conv' map_add_def split: option.splits)
qed

lemma keys_fold_update:
  "fst ` set (fold (\<lambda>(k, v). AList.update k (f k v)) es acc) = fst ` set es \<union> fst ` set acc"
proof (induction es arbitrary: acc)
  case Nil
  then show ?case by simp
next
  case (Cons e es)
  obtain k v where e: "e = (k, v)" by (cases e)
  have "fst ` set (AList.update k (f k v) acc) = insert k (fst ` set acc)"
    by (simp add: dom_update)
  then show ?case
    by (simp add: e Cons.IH)
qed

lemma percentage_windows_fold:
  "list_all (\<lambda>d. keyInt (length ts) d < int (length ts)) ds \<Longrightarrow>
   percentage_windows ts lst ds acc =
     Inr (fold (\<lambda>d. AList.update d (window_map ts lst d)) ds acc)"
  by (induction ds arbitrary: acc) (simp_all add: percentage_keys_fold window_map_def)

lemma map_of_fold_update_key:
  "map_of (fold (\<lambda>d. AList.update d (g d)) ds acc) d =
     (if d \<in> set ds then Some (g d) else map_of acc d)"
  by (induction ds arbitrary: acc) (auto simp: update_conv')

lemma Percentage_nonempty:
  assumes "\<not> mu tsa" "TimeSeries tsa \<noteq> []" "list_all valid_window (DurationInMinutes tsa)"
  shows "Percentage tsa =
     Inr (Some (fold (\<lambda>d. AList.update d (window_map (TimeSeries tsa) (last (TimeSeries tsa)) d))
                  (DurationInMinutes tsa) []), None)"
  using assms
  by (simp add: Percentage_def percentage_windows_fold valid_windows_in_range last_conv_nth)

lemma load_modes_UtilAvg: "UtilAvg (load_modes ds stat) = UtilAvg stat"
  by (induction ds arbitrary: stat) (simp_all split: option.splits)

subsection \<open>The empty store\<close>

text \<open>
  C6. When the mutex is free, \<^verbatim>\<open>Percentage\<close> returns an error exactly when the series is
  empty; the error is then "CPU metrics are not collected yet" and the map is nil.
\<close>

theorem Percentage_error_iff_empty:
  assumes "\<not> mu tsa"
  shows "((\<exists>r e. Percentage tsa = Inr (r, Some e)) \<longleftrightarrow> TimeSeries tsa = []) \<and>
         (TimeSeries tsa = [] \<longrightarrow>
            Percentage tsa = Inr (None, Some ''CPU metrics are not collected yet''))"
  using assms by (auto simp: Percentage_def split: sum.splits)

theorem Percentage_error_iff_empty_witness:
  "\<not> mu store0 \<and> TimeSeries store0 = [] \<and>
   Percentage store0 = Inr (None, Some ''CPU metrics are not collected yet'')"
  using Percentage_error_iff_empty [of store0] by (simp add: store0_def)

subsection \<open>A failed sample\<close>

text \<open>
  C1. \<^verbatim>\<open>Once\<close> returns the error of a failed query with the series as it was, but it
  returns with the mutex held: the next \<^verbatim>\<open>Once\<close>, the next iteration of \<^verbatim>\<open>Run\<close> and
  every \<^verbatim>\<open>Results\<close> then wait for the mutex for ever.
\<close>

theorem Once_failure_keeps_lock:
  "case Once now (Inl err) stat of
     Inl f \<Rightarrow> f = Deadlock
   | Inr (e, stat') \<Rightarrow>
       e = Some err \<and> TimeSeries (UtilAvg stat') = TimeSeries (UtilAvg stat) \<and>
       mu (UtilAvg stat') \<and>
       Once now' os stat' = Inl Deadlock \<and>
       Run ((now', os) # rest) stat' = Inl Deadlock \<and>
       Results Sprintf load stat' = Inl Deadlock"
  by (simp add: Once_def Results_def Percentage_def)

subsection \<open>A configuration without windows\<close>

text \<open>
  C7. On a watcher built from a configuration with no utilisation window, the first
  successful \<^verbatim>\<open>Once\<close> appends its sample and the second one stops on the index \<open>-1\<close> of the
  empty list of windows.
\<close>

theorem Once_without_windows_panics:
  "case Once now1 (Inr cputimes1) (Cagent_CPUWatcher goos loadErr (ca\<lparr>CPUUtilDataGather := []\<rparr>)) of
     Inl f \<Rightarrow> False
   | Inr (e, stat') \<Rightarrow>
       e = None \<and> Once now2 (Inr cputimes2) stat' = Inl (IndexOutOfRange (- 1) 0)"
  by (simp add: Once_def Cagent_CPUWatcher_def empty_watcher_def SetDurationsMinutes_def
      Add_def last_index_def Let_def load_modes_UtilAvg)

subsection \<open>The map of a window\<close>



lemma valid_window_1: "valid_window 1"
  by (simp add: valid_window_def Minute_def Second_def maxInt64_def)

lemma keyInt_1: "keyInt n 1 = int n - 12"
  using keyInt_valid_window [OF valid_window_1] by simp

subsection \<open>Results\<close>

lemma set_update_cases:
  "(a, b) \<in> set (AList.update k v al) \<Longrightarrow> (a, b) = (k, v) \<or> (a, b) \<in> set al"
  by (induction al) (auto split: if_splits)

lemma set_fold_update_cases:
  "(k', v') \<in> set (fold (\<lambda>(k, v). AList.update k (f k v)) es acc) \<Longrightarrow>
     (\<exists>v. (k', v) \<in> set es \<and> v' = f k' v) \<or> (k', v') \<in> set acc"
proof (induction es arbitrary: acc)
  case Nil
  then show ?case by simp
next
  case (Cons e es)
  obtain k v where e: "e = (k, v)" by (cases e)
  from Cons.prems have "(k', v') \<in> set (fold (\<lambda>(k, v). AList.update k (f k v)) es (AList.update k (f k v) acc))"
    by (simp add: e)
  from Cons.IH [OF this] show ?case
    using set_update_cases [of k' v' k "f k v" acc] by (auto simp: e)
qed

lemma set_fold_update_key_cases:
  "(d', m') \<in> set (fold (\<lambda>d. AList.update d (g d)) ds acc) \<Longrightarrow>
     (d' \<in> set ds \<and> m' = g d') \<or> (d', m') \<in> set acc"
proof (induction ds arbitrary: acc)
  case Nil
  then show ?case by simp
next
  case (Cons d ds)
  from Cons.prems have "(d', m') \<in> set (fold (\<lambda>d. AList.update d (g d)) ds (AList.update d (g d) acc))"
    by simp
  from Cons.IH [OF this] show ?case
    using set_update_cases [of d' m' d "g d" acc] by auto
qed

lemma results_window_lookup:
  assumes "\<forall>(k, v) \<in> set m. ''util.'' @ S k d = name \<longrightarrow> (if v = Fin (- 1) then None else Some v) = x"
  shows "map_of (results_window S d m res) name =
     (if \<exists>(k, v) \<in> set m. ''util.'' @ S k d = name then Some x else map_of res name)"
  using assms
proof (induction m arbitrary: res)
  case Nil
  then show ?case by simp
next
  case (Cons e m)
  obtain k v where e: "e = (k, v)" by (cases e)
  from Cons.prems have "\<forall>(k, v) \<in> set m. ''util.'' @ S k d = name \<longrightarrow> (if v = Fin (- 1) then None else Some v) = x"
    by simp
  from Cons.IH [OF this] Cons.prems show ?case
    by (auto simp: e update_conv')
qed

lemma results_util_lookup:
  assumes "\<forall>(d, m) \<in> set util. \<forall>(k, v) \<in> set m.
     ''util.'' @ S k d = name \<longrightarrow> (if v = Fin (- 1) then None else Some v) = x"
  shows "map_of (results_util S util res) name =
     (if \<exists>(d, m) \<in> set util. \<exists>(k, v) \<in> set m. ''util.'' @ S k d = name then Some x
      else map_of res name)"
  using assms
proof (induction util arbitrary: res)
  case Nil
  then show ?case by simp
next
  case (Cons e util)
  obtain d m where e: "e = (d, m)" by (cases e)
  from Cons.prems have rest: "\<forall>(d, m) \<in> set util. \<forall>(k, v) \<in> set m.
     ''util.'' @ S k d = name \<longrightarrow> (if v = Fin (- 1) then None else Some v) = x"
    by simp
  from Cons.prems have hd: "\<forall>(k, v) \<in> set m.
     ''util.'' @ S k d = name \<longrightarrow> (if v = Fin (- 1) then None else Some v) = x"
    by (simp add: e)
  show ?case
    by (simp add: e Cons.IH [OF rest] results_window_lookup [of m S d name x, OF hd])
qed

lemma results_load_util:
  "map_of (results_load cs loadAvg res) (''util.'' @ x) = map_of res (''util.'' @ x)"
  by (simp add: results_load_def Let_def update_conv')

lemma map_of_window_map_unavailable:
  assumes "keyInt (length ts) d < 0" and "key \<in> fst ` set (Values lst)"
  shows "map_of (window_map ts lst d) key = Some (Fin (- 1))"
proof -
  from assms(2) have "key \<in> fst ` set (rev (Values lst))" by simp
  then obtain v where "map_of (rev (Values lst)) key = Some v"
    by (metis domD dom_map_of_conv_image_fst)
  then show ?thesis
    using assms(1) by (simp add: window_map_def map_of_fold_update window_value_def)
qed

lemma set_window_map_cases:
  assumes "(k', v') \<in> set (window_map ts lst d)"
  shows "\<exists>v. (k', v) \<in> set (Values lst) \<and> v' = window_value ts (keyInt (length ts) d) lst k' v"
  using set_fold_update_cases [of k' v' "window_value ts (keyInt (length ts) d) lst" "Values lst" "[]"] assms
  by (simp add: window_map_def)

lemma Results_unfold:
  assumes "Percentage (UtilAvg cs) = Inr (util, perr)"
    and "U = results_util Sprintf (case util of None \<Rightarrow> [] | Some u \<Rightarrow> u) []"
  shows "Results Sprintf load cs =
     Inr (if load_enabled cs then
            (case load of Inl e \<Rightarrow> U | Inr la \<Rightarrow> results_load cs la U)
          else U,
          case (perr, if load_enabled cs then (case load of Inl e \<Rightarrow> Some e | Inr la \<Rightarrow> None) else None) of
            (None, None) \<Rightarrow> None
          | (Some p, None) \<Rightarrow> Some (''CPU: '' @ p)
          | (None, Some e) \<Rightarrow> Some (''CPU: '' @ e)
          | (Some p, Some e) \<Rightarrow> Some (''CPU: '' @ p @ ''; '' @ e))"
  using assms
  by (auto simp: Results_def load_enabled_def Let_def split: sum.splits option.splits)

lemma watcher_young_facts:
  "\<not> mu (UtilAvg watcher_young)" "TimeSeries (UtilAvg watcher_young) \<noteq> []"
  "DurationInMinutes (UtilAvg watcher_young) = [1]"
  "length (TimeSeries (UtilAvg watcher_young)) = 1"
  "last (TimeSeries (UtilAvg watcher_young)) = snap 0 ''user.%d.total'' 10"
  "load_enabled watcher_young"
  by (simp_all add: watcher_young_def load_enabled_def)

lemma results_load_values:
  "LoadAvg1 cs \<Longrightarrow> map_of (results_load cs la res) ''load.avg.1'' = Some (Some (Load1 la))"
  "LoadAvg5 cs \<Longrightarrow> map_of (results_load cs la res) ''load.avg.5'' = Some (Some (Load5 la))"
  "LoadAvg15 cs \<Longrightarrow> map_of (results_load cs la res) ''load.avg.15'' = Some (Some (Load15 la))"
  by (simp_all add: results_load_def Let_def update_conv')

text \<open>
  C3. In a non-empty store, a window whose reference index is negative gets the value
  \<open>-1\<close> for every key of the latest sample: \<^verbatim>\<open>Percentage\<close> returns it with no error, and
  \<^verbatim>\<open>Results\<close> returns nil under the key's name, provided no key of an available window
  formats to the same name.
\<close>

theorem unavailable_window_is_null:
  assumes "\<not> mu (UtilAvg cs)" and "TimeSeries (UtilAvg cs) \<noteq> []"
    and "list_all valid_window (DurationInMinutes (UtilAvg cs))"
    and "d \<in> set (DurationInMinutes (UtilAvg cs))"
    and "keyInt (length (TimeSeries (UtilAvg cs))) d < 0"
    and "key \<in> fst ` set (Values (last (TimeSeries (UtilAvg cs))))"
    and "\<forall>d' \<in> set (DurationInMinutes (UtilAvg cs)).
           \<forall>k' \<in> fst ` set (Values (last (TimeSeries (UtilAvg cs)))).
             Sprintf k' d' = Sprintf key d \<longrightarrow> keyInt (length (TimeSeries (UtilAvg cs))) d' < 0"
  shows "\<exists>res m results err.
           Percentage (UtilAvg cs) = Inr (Some res, None) \<and> map_of res d = Some m \<and>
           map_of m key = Some (Fin (- 1)) \<and>
           Results Sprintf load cs = Inr (results, err) \<and>
           map_of results (''util.'' @ Sprintf key d) = Some None"
proof -
  let ?ts = "TimeSeries (UtilAvg cs)"
  let ?ds = "DurationInMinutes (UtilAvg cs)"
  let ?res = "fold (\<lambda>d. AList.update d (window_map ?ts (last ?ts) d)) ?ds []"
  let ?m = "window_map ?ts (last ?ts) d"
  let ?U = "results_util Sprintf ?res []"
  define name where "name = ''util.'' @ Sprintf key d"
  have p: "Percentage (UtilAvg cs) = Inr (Some ?res, None)"
    using assms(1-3) by (rule Percentage_nonempty)
  have m: "map_of ?res d = Some ?m"
    using assms(4) by (simp add: map_of_fold_update_key)
  have v: "map_of ?m key = Some (Fin (- 1))"
    using assms(5,6) by (rule map_of_window_map_unavailable)
  have sentinel: "v' = Fin (- 1)"
    if dm: "(d', m') \<in> set ?res" and kv: "(k', v') \<in> set m'"
      and eq: "''util.'' @ Sprintf k' d' = name" for d' m' k' v'
  proof -
    from set_fold_update_key_cases [OF dm]
    have d': "d' \<in> set ?ds" and m': "m' = window_map ?ts (last ?ts) d'"
      by simp_all
    from kv m' set_window_map_cases obtain v0 where
      v0: "(k', v0) \<in> set (Values (last ?ts))"
        "v' = window_value ?ts (keyInt (length ?ts) d') (last ?ts) k' v0"
      by blast
    from v0(1) have "k' \<in> fst ` set (Values (last ?ts))" by force
    moreover from eq have "Sprintf k' d' = Sprintf key d" by (simp add: name_def)
    ultimately have "keyInt (length ?ts) d' < 0" using assms(7) d' by blast
    with v0(2) show "v' = Fin (- 1)" by (simp add: window_value_def)
  qed
  have all: "\<forall>(d', m') \<in> set ?res. \<forall>(k', v') \<in> set m'.
      ''util.'' @ Sprintf k' d' = name \<longrightarrow> (if v' = Fin (- 1) then None else Some v') = None"
    using sentinel by fastforce
  have ex: "\<exists>(d', m') \<in> set ?res. \<exists>(k', v') \<in> set m'. ''util.'' @ Sprintf k' d' = name"
    using map_of_SomeD [OF m] map_of_SomeD [OF v] unfolding name_def by blast
  have u: "map_of ?U name = Some None"
    using results_util_lookup [of ?res Sprintf name None "[]", OF all] ex by simp
  have l: "map_of (results_load cs la res) name = map_of res name" for la res
    unfolding name_def by (rule results_load_util)
  obtain results err where r: "Results Sprintf load cs = Inr (results, err)"
    and rr: "results = (if load_enabled cs then
            (case load of Inl e \<Rightarrow> ?U | Inr la \<Rightarrow> results_load cs la ?U) else ?U)"
    using Results_unfold [OF p, of ?U Sprintf load] by simp
  have "map_of results name = Some None"
    by (simp add: rr l u split: sum.splits)
  with p m v r show ?thesis
    unfolding name_def by blast
qed

theorem unavailable_window_is_null_witness:
  "\<exists>res m results err.
     Percentage (UtilAvg watcher_young) = Inr (Some res, None) \<and> map_of res 1 = Some m \<and>
     map_of m ''user.%d.total'' = Some (Fin (- 1)) \<and>
     Results Sprintf_d (Inr load_ok) watcher_young = Inr (results, err) \<and>
     map_of results ''util.user.1.total'' = Some None"
proof -
  have "\<exists>res m results err.
     Percentage (UtilAvg watcher_young) = Inr (Some res, None) \<and> map_of res 1 = Some m \<and>
     map_of m ''user.%d.total'' = Some (Fin (- 1)) \<and>
     Results Sprintf_d (Inr load_ok) watcher_young = Inr (results, err) \<and>
     map_of results (''util.'' @ Sprintf_d ''user.%d.total'' 1) = Some None"
  proof (rule unavailable_window_is_null)
    show "\<not> mu (UtilAvg watcher_young)" "TimeSeries (UtilAvg watcher_young) \<noteq> []"
      by (rule watcher_young_facts)+
    show "list_all valid_window (DurationInMinutes (UtilAvg watcher_young))"
      by (simp add: watcher_young_facts valid_window_1)
    show "1 \<in> set (DurationInMinutes (UtilAvg watcher_young))"
      by (simp add: watcher_young_facts)
    show "keyInt (length (TimeSeries (UtilAvg watcher_young))) 1 < 0"
      by (simp add: watcher_young_facts keyInt_1)
    show "''user.%d.total'' \<in> fst ` set (Values (last (TimeSeries (UtilAvg watcher_young))))"
      by (simp add: watcher_young_facts snap_def)
    show "\<forall>d' \<in> set (DurationInMinutes (UtilAvg watcher_young)).
           \<forall>k' \<in> fst ` set (Values (last (TimeSeries (UtilAvg watcher_young)))).
             Sprintf_d k' d' = Sprintf_d ''user.%d.total'' 1 \<longrightarrow>
             keyInt (length (TimeSeries (UtilAvg watcher_young))) d' < 0"
      by (simp add: watcher_young_facts keyInt_1)
  qed
  then show ?thesis
    by (simp add: itoa_int_def digit_char_def)
qed

subsection \<open>A key that the reference sample lacks\<close>





lemma rate_40_10: "rate (Fin 40) (Fin 10) 60000000000 = Fin (1 / 2)"
  by (simp add: rate_def fsub_def Seconds_def int64_to_float64_def tdiv_def trem_def Second_def
      round64_eval trunc_def minInt64_def maxInt64_def)

lemma Percentage_store_rate:
  "Percentage store_rate = Inr (Some [(1, [(''user.%d.total'', Fin (1 / 2))])], None)"
proof -
  have "rate (Fin 40) (Fin 10) (time_Sub (60 * Second) (0 * Second)) = Fin (1 / 2)"
    using rate_40_10 by (simp add: time_Sub_def Second_def minInt64_def maxInt64_def)
  then show ?thesis
    by (simp add: store_rate_def snap_def Percentage_def keyInt_1 lookup0_def)
qed

text \<open>
  C8. \<^verbatim>\<open>Results\<close> returns its map together with one error that joins the errors of its
  parts: none when the store has a sample and the load query did not fail, otherwise
  "CPU: " and the messages separated by "; ". Whatever the load query answers, every
  value that \<^verbatim>\<open>Percentage\<close> computed is in the map under its formatted name (nil for the
  value \<open>-1\<close>), provided the entries that format to the same name carry the same value;
  and the load averages are in the map when the query succeeds, also on an empty store.
  A window without enough history adds no error.
\<close>

theorem Results_combines_errors:
  assumes "\<not> mu (UtilAvg cs)" and "list_all valid_window (DurationInMinutes (UtilAvg cs))"
  shows "\<exists>results err. Results Sprintf load cs = Inr (results, err) \<and>
     err = (case (if TimeSeries (UtilAvg cs) = [] then Some ''CPU metrics are not collected yet'' else None,
                  if load_enabled cs then (case load of Inl e \<Rightarrow> Some e | Inr la \<Rightarrow> None) else None) of
              (None, None) \<Rightarrow> None
            | (Some p, None) \<Rightarrow> Some (''CPU: '' @ p)
            | (None, Some e) \<Rightarrow> Some (''CPU: '' @ e)
            | (Some p, Some e) \<Rightarrow> Some (''CPU: '' @ p @ ''; '' @ e)) \<and>
     (\<forall>util perr d m k v.
        Percentage (UtilAvg cs) = Inr (Some util, perr) \<and> map_of util d = Some m \<and>
        map_of m k = Some v \<and>
        (\<forall>d' m' k' v'. (d', m') \<in> set util \<and> (k', v') \<in> set m' \<and>
           Sprintf k' d' = Sprintf k d \<longrightarrow> v' = v) \<longrightarrow>
        map_of results (''util.'' @ Sprintf k d) = Some (if v = Fin (- 1) then None else Some v)) \<and>
     (\<forall>la. load = Inr la \<longrightarrow>
        (LoadAvg1 cs \<longrightarrow> map_of results ''load.avg.1'' = Some (Some (Load1 la))) \<and>
        (LoadAvg5 cs \<longrightarrow> map_of results ''load.avg.5'' = Some (Some (Load5 la))) \<and>
        (LoadAvg15 cs \<longrightarrow> map_of results ''load.avg.15'' = Some (Some (Load15 la))))"
proof -
  let ?perr = "if TimeSeries (UtilAvg cs) = [] then Some ''CPU metrics are not collected yet'' else None"
  obtain util0 where p: "Percentage (UtilAvg cs) = Inr (util0, ?perr)"
  proof (cases "TimeSeries (UtilAvg cs) = []")
    case True
    with assms(1) have "Percentage (UtilAvg cs) = Inr (None, ?perr)"
      by (simp add: Percentage_def)
    then show ?thesis by (rule that)
  next
    case False
    with assms Percentage_nonempty [of "UtilAvg cs"] show ?thesis
      by (auto intro: that)
  qed
  define U where "U = results_util Sprintf (case util0 of None \<Rightarrow> [] | Some u \<Rightarrow> u) []"
  define R where "R = (if load_enabled cs then
            (case load of Inl e \<Rightarrow> U | Inr la \<Rightarrow> results_load cs la U) else U)"
  have e: "Results Sprintf load cs = Inr (R,
     case (?perr, if load_enabled cs then (case load of Inl e \<Rightarrow> Some e | Inr la \<Rightarrow> None) else None) of
              (None, None) \<Rightarrow> None
            | (Some p, None) \<Rightarrow> Some (''CPU: '' @ p)
            | (None, Some e) \<Rightarrow> Some (''CPU: '' @ e)
            | (Some p, Some e) \<Rightarrow> Some (''CPU: '' @ p @ ''; '' @ e))"
    using Results_unfold [OF p U_def, of load] by (simp only: R_def)
  have u: "map_of R (''util.'' @ x) = map_of U (''util.'' @ x)" for x
    by (simp add: R_def results_load_util split: sum.splits del: append.simps)
  have entries: "map_of R (''util.'' @ Sprintf k d) = Some (if v = Fin (- 1) then None else Some v)"
    if pu: "Percentage (UtilAvg cs) = Inr (Some util, perr)" and md: "map_of util d = Some m"
      and mk: "map_of m k = Some v"
      and same: "\<forall>d' m' k' v'. (d', m') \<in> set util \<and> (k', v') \<in> set m' \<and>
           Sprintf k' d' = Sprintf k d \<longrightarrow> v' = v"
    for util perr d m k v
  proof -
    define name where "name = ''util.'' @ Sprintf k d"
    from p pu have u0: "util0 = Some util" by simp
    have all: "\<forall>(d', m') \<in> set util. \<forall>(k', v') \<in> set m'.
        ''util.'' @ Sprintf k' d' = name \<longrightarrow>
        (if v' = Fin (- 1) then None else Some v') = (if v = Fin (- 1) then None else Some v)"
      using same unfolding name_def by fastforce
    have ex: "\<exists>(d', m') \<in> set util. \<exists>(k', v') \<in> set m'. ''util.'' @ Sprintf k' d' = name"
      using map_of_SomeD [OF md] map_of_SomeD [OF mk] unfolding name_def by blast
    have "map_of U name = Some (if v = Fin (- 1) then None else Some v)"
      unfolding U_def u0
      using results_util_lookup [of util Sprintf name "if v = Fin (- 1) then None else Some v" "[]", OF all] ex
      by simp
    then show ?thesis
      using u [of "Sprintf k d"] by (simp only: name_def)
  qed
  have loads: "\<forall>la. load = Inr la \<longrightarrow>
        (LoadAvg1 cs \<longrightarrow> map_of R ''load.avg.1'' = Some (Some (Load1 la))) \<and>
        (LoadAvg5 cs \<longrightarrow> map_of R ''load.avg.5'' = Some (Some (Load5 la))) \<and>
        (LoadAvg15 cs \<longrightarrow> map_of R ''load.avg.15'' = Some (Some (Load15 la)))"
    by (auto simp: R_def load_enabled_def results_load_values)
  from e entries loads show ?thesis by blast
qed

lemma watcher_rate_facts:
  "\<not> mu (UtilAvg watcher_rate)" "TimeSeries (UtilAvg watcher_rate) \<noteq> []"
  "DurationInMinutes (UtilAvg watcher_rate) = [1]" "load_enabled watcher_rate"
  "UtilAvg watcher_rate = store_rate"
  by (simp_all add: watcher_rate_def store_rate_def load_enabled_def)

theorem Results_combines_errors_witness:
  "\<exists>results. Results Sprintf_d (Inl ''load failed'') watcher_rate =
       Inr (results, Some ''CPU: load failed'') \<and>
     map_of results ''util.user.1.total'' = Some (Some (Fin (1 / 2)))"
proof -
  have a: "\<not> mu (UtilAvg watcher_rate)"
    by (rule watcher_rate_facts)
  have b: "list_all valid_window (DurationInMinutes (UtilAvg watcher_rate))"
    by (simp add: watcher_rate_facts(3) valid_window_1)
  from Results_combines_errors [OF a b, of Sprintf_d "Inl ''load failed''"]
  obtain results err where
    r: "Results Sprintf_d (Inl ''load failed'') watcher_rate = Inr (results, err)" and
    e: "err = (case (if TimeSeries (UtilAvg watcher_rate) = []
                     then Some ''CPU metrics are not collected yet'' else None,
                  if load_enabled watcher_rate
                  then (case (Inl ''load failed'' :: string + AvgStat) of Inl e \<Rightarrow> Some e | Inr la \<Rightarrow> None)
                  else None) of
              (None, None) \<Rightarrow> None
            | (Some p, None) \<Rightarrow> Some (''CPU: '' @ p)
            | (None, Some e) \<Rightarrow> Some (''CPU: '' @ e)
            | (Some p, Some e) \<Rightarrow> Some (''CPU: '' @ p @ ''; '' @ e))" and
    u: "\<forall>util perr d m k v.
        Percentage (UtilAvg watcher_rate) = Inr (Some util, perr) \<and> map_of util d = Some m \<and>
        map_of m k = Some v \<and>
        (\<forall>d' m' k' v'. (d', m') \<in> set util \<and> (k', v') \<in> set m' \<and>
           Sprintf_d k' d' = Sprintf_d k d \<longrightarrow> v' = v) \<longrightarrow>
        map_of results (''util.'' @ Sprintf_d k d) = Some (if v = Fin (- 1) then None else Some v)"
    by blast
  from e have e': "err = Some ''CPU: load failed''"
    by (simp add: watcher_rate_facts(2,4))
  have "map_of results (''util.'' @ Sprintf_d ''user.%d.total'' 1) =
      Some (if Fin (1 / 2) = Fin (- 1) then None else Some (Fin (1 / 2)))"
  proof (rule u [rule_format, of "[(1, [(''user.%d.total'', Fin (1 / 2))])]" None 1
        "[(''user.%d.total'', Fin (1 / 2))]"], intro conjI)
    show "Percentage (UtilAvg watcher_rate) = Inr (Some [(1, [(''user.%d.total'', Fin (1 / 2))])], None)"
      by (simp only: watcher_rate_facts(5) Percentage_store_rate)
  qed simp_all
  then have "map_of results ''util.user.1.total'' = Some (Some (Fin (1 / 2)))"
    by (simp add: itoa_int_def digit_char_def)
  with r e' show ?thesis by blast
qed

end
